theory Spec2Isabelle
  imports Main "HOL-Library.Sublist"
begin

section \<open>Data model (resources/types.py)\<close>

text \<open>
  \<^verbatim>\<open>Locale = Literal["en", "pl"]\<close> is a static annotation only: at run time a locale is
  any string, and nothing in the plugin checks it. A locale is therefore a string.
\<close>

type_synonym Locale = string

text \<open>
  A member of the host framework's \<^verbatim>\<open>HandlerMode\<close> enumeration. The plugin uses a member
  as a dictionary key and reads its \<^verbatim>\<open>.value\<close> for the error message; the enumeration
  itself belongs to the host framework, so a member is given by its name and its value.
\<close>

datatype HandlerMode = HandlerMode (mode_name: string) (mode_value: string)

text \<open>
  A handler class: its identity and its \<^verbatim>\<open>__name__\<close>. Which dictionary object its
  attribute \<^verbatim>\<open>ERROR_TEMPLATES\<close> is bound to is part of the state (see \<open>world\<close> below).
\<close>

datatype handler_class = HandlerClass (class_id: nat) (class_name: string)

text \<open>
  An error template is a callable of one argument, the handler instance. \<open>'h\<close> is the type
  of handler instances, \<open>'r\<close> the type of what a template returns.
\<close>

type_synonym ('h, 'r) ConditionErrorTemplate = "'h \<Rightarrow> 'r"

text \<open>\<^verbatim>\<open>Translation = dict[Locale, ConditionErrorTemplate]\<close>: only looked up, never iterated.\<close>

type_synonym ('h, 'r) Translation = "Locale \<rightharpoonup> ('h, 'r) ConditionErrorTemplate"

text \<open>
  \<^verbatim>\<open>Translations = dict[HandlerMode, Translation]\<close>. The registrar iterates over
  \<^verbatim>\<open>translations.items()\<close>, and the order of that iteration (insertion order) decides
  what has been installed when it raises, so the table is an association list in
  iteration order. The keys of a dictionary are distinct.
\<close>

type_synonym ('h, 'r) Translations = "(HandlerMode \<times> ('h, 'r) Translation) list"

text \<open>The exceptions that the modelled code can raise.\<close>

datatype exn =
    PipelinePluginI18nException string
  | KeyError Locale
  | LookupError

text \<open>
  What an \<^verbatim>\<open>ERROR_TEMPLATES\<close> slot holds: a plain template of the host framework, or the
  object \<^verbatim>\<open>partial(process_translation, translation=translation)\<close> that
  \<^verbatim>\<open>register_handler\<close> installs, which is determined by the captured translation.
\<close>

datatype ('h, 'r) slot =
    Template "('h, 'r) ConditionErrorTemplate"
  | Resolver "('h, 'r) Translation"

text \<open>
  The state the plugin reads and writes: the value of the context variable
  \<^verbatim>\<open>CURRENT_LOCALE\<close> in the calling flow's context (\<open>None\<close> when it was never set there),
  and the slot tables of the handler classes. A slot table is a dictionary object, and
  several classes can be bound to one object: a subclass that does not define
  \<^verbatim>\<open>ERROR_TEMPLATES\<close> itself finds its parent's. So the state has the address of the
  dictionary that the attribute lookup \<^verbatim>\<open>handler.ERROR_TEMPLATES\<close> finds for each class,
  and the dictionary stored at each address.
\<close>

type_synonym addr = nat

record ('h, 'r) world =
  CURRENT_LOCALE :: "Locale option"
  ERROR_TEMPLATES_ref :: "handler_class \<Rightarrow> addr"
  dicts :: "addr \<Rightarrow> (HandlerMode \<rightharpoonup> ('h, 'r) slot)"

text \<open>The expression \<^verbatim>\<open>handler.ERROR_TEMPLATES\<close>, read: the dictionary the class is bound to.\<close>

definition ERROR_TEMPLATES ::
  "('h, 'r) world \<Rightarrow> handler_class \<Rightarrow> (HandlerMode \<rightharpoonup> ('h, 'r) slot)" where
  "ERROR_TEMPLATES w handler = dicts w (ERROR_TEMPLATES_ref w handler)"

section \<open>The locale context (plugin.py, lines 38-42 and 87-106)\<close>

definition BASE_LOCALE :: Locale where
  "BASE_LOCALE = ''en''"

text \<open>
  \<^verbatim>\<open>ContextVar.get(default)\<close> of the standard library, for a variable created without a
  default of its own: the value set in the current context, else the argument, else
  \<^verbatim>\<open>LookupError\<close>. \<^verbatim>\<open>ContextVar.set(value)\<close> binds the value in the current context.
\<close>

definition ContextVar_get :: "'a option \<Rightarrow> 'a option \<Rightarrow> exn + 'a" where
  "ContextVar_get var dflt =
     (case var of
        Some v \<Rightarrow> Inr v
      | None \<Rightarrow> (case dflt of Some d \<Rightarrow> Inr d | None \<Rightarrow> Inl LookupError))"

definition ContextVar_set :: "'a \<Rightarrow> 'a option \<Rightarrow> 'a option" where
  "ContextVar_set v var = Some v"

text \<open>\<^verbatim>\<open>return cls.CURRENT_LOCALE.get(cls.BASE_LOCALE)\<close>\<close>

definition get_locale :: "('h, 'r) world \<Rightarrow> (exn + Locale) \<times> ('h, 'r) world" where
  "get_locale w = (ContextVar_get (CURRENT_LOCALE w) (Some BASE_LOCALE), w)"

text \<open>\<^verbatim>\<open>cls.CURRENT_LOCALE.set(locale)\<close>; the method returns \<^verbatim>\<open>None\<close>.\<close>

definition set_locale :: "Locale \<Rightarrow> ('h, 'r) world \<Rightarrow> (exn + unit) \<times> ('h, 'r) world" where
  "set_locale locale w =
     (Inr (), w\<lparr>CURRENT_LOCALE := ContextVar_set locale (CURRENT_LOCALE w)\<rparr>)"

text \<open>\<open>n\<close> calls of \<^verbatim>\<open>get_locale\<close> in a row, in one flow: the values returned, and the state.\<close>

fun get_locale_times :: "nat \<Rightarrow> ('h, 'r) world \<Rightarrow> (exn + Locale) list \<times> ('h, 'r) world" where
  "get_locale_times 0 w = ([], w)"
| "get_locale_times (Suc n) w =
     (case get_locale w of
        (r, w') \<Rightarrow> (case get_locale_times n w' of (rs, w'') \<Rightarrow> (r # rs, w'')))"

section \<open>The translation registrar (plugin.py, lines 44-85)\<close>

text \<open>
  The inner function \<^verbatim>\<open>process_translation(self, translation)\<close>. Python evaluates the
  default argument \<^verbatim>\<open>translation[cls.BASE_LOCALE]\<close> before the call of \<^verbatim>\<open>get\<close>, so a
  translation without the base locale raises \<^verbatim>\<open>KeyError\<close> whatever the locale is.
\<close>

definition process_translation ::
  "('h, 'r) world \<Rightarrow> 'h \<Rightarrow> ('h, 'r) Translation \<Rightarrow> (exn + 'r) \<times> ('h, 'r) world" where
  "process_translation w self translation =
     (case get_locale w of
        (Inl e, w') \<Rightarrow> (Inl e, w')
      | (Inr locale, w') \<Rightarrow>
          (case translation BASE_LOCALE of
             None \<Rightarrow> (Inl (KeyError BASE_LOCALE), w')
           | Some base_template \<Rightarrow>
               (let error_template =
                      (case translation locale of Some t \<Rightarrow> t | None \<Rightarrow> base_template)
                in (Inr (error_template self), w'))))"

text \<open>
  The host framework renders a failure by calling the slot with the handler instance:
  a plain template is applied to it, a resolver runs \<^verbatim>\<open>process_translation\<close> with the
  captured translation.
\<close>

fun call_slot :: "('h, 'r) slot \<Rightarrow> 'h \<Rightarrow> ('h, 'r) world \<Rightarrow> (exn + 'r) \<times> ('h, 'r) world" where
  "call_slot (Template t) self w = (Inr (t self), w)"
| "call_slot (Resolver translation) self w = process_translation w self translation"

text \<open>The message of the configuration error (the f-string of line 80).\<close>

definition missing_message :: "handler_class \<Rightarrow> HandlerMode \<Rightarrow> string" where
  \<open>missing_message handler mode =
     ''Handler "'' @ class_name handler @ ''" is missing the "'' @ BASE_LOCALE @
     ''" base locale translation for "'' @ mode_value mode @ ''" mode.''\<close>

text \<open>
  \<^verbatim>\<open>handler.ERROR_TEMPLATES[mode] = partial(process_translation, translation=translation)\<close>:
  an item assignment into the dictionary object that the attribute lookup finds. The
  object is changed in place, for every class bound to it; no class is rebound.
\<close>

definition install ::
  "handler_class \<Rightarrow> HandlerMode \<Rightarrow> ('h, 'r) Translation \<Rightarrow> ('h, 'r) world \<Rightarrow> ('h, 'r) world" where
  "install handler mode translation w =
     w\<lparr>dicts :=
         (dicts w)(ERROR_TEMPLATES_ref w handler :=
            (dicts w (ERROR_TEMPLATES_ref w handler))(mode \<mapsto> Resolver translation))\<rparr>"

text \<open>
  The loop of lines 77-85 over \<^verbatim>\<open>translations.items()\<close>: each pair is checked and then
  installed before the next pair is looked at; the first pair without the base locale
  raises and ends the loop.
\<close>

fun register_loop ::
  "handler_class \<Rightarrow> ('h, 'r) Translations \<Rightarrow> ('h, 'r) world \<Rightarrow> (exn + unit) \<times> ('h, 'r) world" where
  "register_loop handler [] w = (Inr (), w)"
| "register_loop handler ((mode, translation) # rest) w =
     (if BASE_LOCALE \<notin> dom translation
      then (Inl (PipelinePluginI18nException (missing_message handler mode)), w)
      else register_loop handler rest (install handler mode translation w))"

text \<open>
  \<^verbatim>\<open>register_handler(handler, translations)\<close>. The dictionary \<^verbatim>\<open>translations\<close> is passed by
  reference, so its state after the call is returned too, between the outcome and the
  world. The code only reads it (\<^verbatim>\<open>items()\<close>, \<^verbatim>\<open>in\<close>), and its type
  (\<^verbatim>\<open>dict[HandlerMode, Translation]\<close>) keeps it apart from the slot tables that the loop
  writes, whose values are callables.
\<close>

definition register_handler ::
  "handler_class \<Rightarrow> ('h, 'r) Translations \<Rightarrow> ('h, 'r) world
     \<Rightarrow> (exn + unit) \<times> ('h, 'r) Translations \<times> ('h, 'r) world" where
  "register_handler handler translations w =
     (case register_loop handler translations w of (r, w') \<Rightarrow> (r, translations, w'))"

section \<open>Example data\<close>

text \<open>
  Three handler classes, three modes, two templates that render the field name held by a
  handler instance, and two worlds in which no locale was set and no template is
  installed: in \<open>fresh_world\<close> every class has a dictionary of its own, in
  \<open>inheriting_world\<close> the class \<open>OptionalHandler\<close> is bound to the dictionary of
  \<open>RequiredHandler\<close>, as a subclass that inherits the attribute is.
\<close>

definition RequiredHandler :: handler_class where
  "RequiredHandler = HandlerClass 0 ''RequiredHandler''"

definition LengthHandler :: handler_class where
  "LengthHandler = HandlerClass 1 ''LengthHandler''"

definition OptionalHandler :: handler_class where
  "OptionalHandler = HandlerClass 2 ''OptionalHandler''"

definition ROOT :: HandlerMode where
  "ROOT = HandlerMode ''ROOT'' ''root''"

definition ITEM :: HandlerMode where
  "ITEM = HandlerMode ''ITEM'' ''item''"

definition MISSING :: HandlerMode where
  "MISSING = HandlerMode ''MISSING'' ''missing''"

definition tmpl_en :: "(string, string) ConditionErrorTemplate" where
  "tmpl_en self = self @ '' is required''"

definition tmpl_pl :: "(string, string) ConditionErrorTemplate" where
  "tmpl_pl self = self @ '' jest wymagane''"

definition fresh_world :: "(string, string) world" where
  "fresh_world =
     \<lparr>CURRENT_LOCALE = None, ERROR_TEMPLATES_ref = class_id, dicts = (\<lambda>a. Map.empty)\<rparr>"

definition inheriting_world :: "(string, string) world" where
  "inheriting_world =
     \<lparr>CURRENT_LOCALE = None,
      ERROR_TEMPLATES_ref = (\<lambda>handler. if handler = OptionalHandler then 0 else class_id handler),
      dicts = (\<lambda>a. Map.empty)\<rparr>"

lemmas example_defs =
  RequiredHandler_def LengthHandler_def OptionalHandler_def ROOT_def ITEM_def MISSING_def
  fresh_world_def inheriting_world_def

section \<open>The loop of the registrar\<close>

text \<open>
  What the loop leaves alone: the locale context, the tables of other handler classes,
  and the slots of modes that are not keys of the table.
\<close>

lemma register_loop_CURRENT_LOCALE:
  "CURRENT_LOCALE (snd (register_loop handler ts w)) = CURRENT_LOCALE w"
  by (induction ts arbitrary: w) (auto simp: install_def)

lemma register_loop_ERROR_TEMPLATES_ref:
  "ERROR_TEMPLATES_ref (snd (register_loop handler ts w)) = ERROR_TEMPLATES_ref w"
  by (induction ts arbitrary: w) (auto simp: install_def)

lemma register_loop_other_dict:
  "a \<noteq> ERROR_TEMPLATES_ref w handler \<Longrightarrow>
   dicts (snd (register_loop handler ts w)) a = dicts w a"
  by (induction ts arbitrary: w) (auto simp: install_def)

lemma register_loop_other_class:
  "ERROR_TEMPLATES_ref w other \<noteq> ERROR_TEMPLATES_ref w handler \<Longrightarrow>
   ERROR_TEMPLATES (snd (register_loop handler ts w)) other = ERROR_TEMPLATES w other"
  by (simp add: ERROR_TEMPLATES_def register_loop_ERROR_TEMPLATES_ref register_loop_other_dict)

lemma register_loop_same_dict:
  "ERROR_TEMPLATES_ref w other = ERROR_TEMPLATES_ref w handler \<Longrightarrow>
   ERROR_TEMPLATES (snd (register_loop handler ts w)) other =
     ERROR_TEMPLATES (snd (register_loop handler ts w)) handler"
  by (simp add: ERROR_TEMPLATES_def register_loop_ERROR_TEMPLATES_ref)

lemma register_loop_other_mode:
  "mode \<notin> fst ` set ts \<Longrightarrow>
   ERROR_TEMPLATES (snd (register_loop handler ts w)) handler mode =
     ERROR_TEMPLATES w handler mode"
  by (induction ts arbitrary: w) (auto simp: install_def ERROR_TEMPLATES_def)

text \<open>
  The loop returns when every translation has the base locale, and raises at the first
  pair that lacks it, after the pairs before it have been installed.
\<close>

lemma register_loop_returns:
  "\<forall>(mode, translation) \<in> set ts. BASE_LOCALE \<in> dom translation \<Longrightarrow>
   fst (register_loop handler ts w) = Inr ()"
  by (induction ts arbitrary: w) auto

lemma register_loop_raises:
  "\<forall>(mode, translation) \<in> set before. BASE_LOCALE \<in> dom translation \<Longrightarrow>
   BASE_LOCALE \<notin> dom bad \<Longrightarrow>
   register_loop handler (before @ (mode, bad) # after) w =
     (Inl (PipelinePluginI18nException (missing_message handler mode)),
      snd (register_loop handler before w))"
proof (induction before arbitrary: w)
  case Nil
  then show ?case by simp
next
  case (Cons p rest)
  obtain m t where p: "p = (m, t)" by (cases p)
  from Cons.prems p have here: "BASE_LOCALE \<in> dom t"
    and later: "\<forall>(mode, translation) \<in> set rest. BASE_LOCALE \<in> dom translation"
    by simp_all
  from Cons.IH [OF later Cons.prems(2)] here p show ?case by simp
qed

text \<open>
  Every table with a translation that lacks the base locale splits at the first such
  pair.
\<close>

lemma first_missing:
  "\<exists>(mode, translation) \<in> set ts. BASE_LOCALE \<notin> dom translation \<Longrightarrow>
   \<exists>before mode bad after. ts = before @ (mode, bad) # after \<and>
     BASE_LOCALE \<notin> dom bad \<and> (\<forall>(m, t) \<in> set before. BASE_LOCALE \<in> dom t)"
proof -
  assume "\<exists>(mode, translation) \<in> set ts. BASE_LOCALE \<notin> dom translation"
  then have "\<exists>p \<in> set ts. BASE_LOCALE \<notin> dom (snd p)" by fastforce
  from split_list_first_prop [OF this]
  obtain before p after where "ts = before @ p # after"
    "BASE_LOCALE \<notin> dom (snd p)" "\<forall>q \<in> set before. \<not> BASE_LOCALE \<notin> dom (snd q)"
    by blast
  then show ?thesis
    by (intro exI [of _ before] exI [of _ "fst p"] exI [of _ "snd p"] exI [of _ after]) auto
qed

lemma register_loop_raises_iff:
  "(\<exists>e. fst (register_loop handler ts w) = Inl e) \<longleftrightarrow>
   (\<exists>(mode, translation) \<in> set ts. BASE_LOCALE \<notin> dom translation)"
proof
  assume raised: "\<exists>e. fst (register_loop handler ts w) = Inl e"
  show "\<exists>(mode, translation) \<in> set ts. BASE_LOCALE \<notin> dom translation"
  proof (rule ccontr)
    assume "\<not> (\<exists>(mode, translation) \<in> set ts. BASE_LOCALE \<notin> dom translation)"
    then have "\<forall>(mode, translation) \<in> set ts. BASE_LOCALE \<in> dom translation"
      by fastforce
    then have "fst (register_loop handler ts w) = Inr ()"
      by (rule register_loop_returns)
    with raised show False by simp
  qed
next
  assume "\<exists>(mode, translation) \<in> set ts. BASE_LOCALE \<notin> dom translation"
  from first_missing [OF this]
  obtain before mode bad after where split: "ts = before @ (mode, bad) # after"
    and bad: "BASE_LOCALE \<notin> dom bad"
    and good: "\<forall>(m, t) \<in> set before. BASE_LOCALE \<in> dom t"
    by blast
  have "fst (register_loop handler ts w) =
      Inl (PipelinePluginI18nException (missing_message handler mode))"
    unfolding split register_loop_raises [OF good bad] by simp
  then show "\<exists>e. fst (register_loop handler ts w) = Inl e" by blast
qed

lemma register_loop_returns_iff:
  "fst (register_loop handler ts w) = Inr () \<longleftrightarrow>
   (\<forall>(mode, translation) \<in> set ts. BASE_LOCALE \<in> dom translation)"
proof
  assume ok: "fst (register_loop handler ts w) = Inr ()"
  show "\<forall>(mode, translation) \<in> set ts. BASE_LOCALE \<in> dom translation"
  proof (rule ccontr)
    assume "\<not> (\<forall>(mode, translation) \<in> set ts. BASE_LOCALE \<in> dom translation)"
    then have "\<exists>(mode, translation) \<in> set ts. BASE_LOCALE \<notin> dom translation"
      by (simp add: split_def)
    then have "\<exists>e. fst (register_loop handler ts w) = Inl e"
      by (simp only: register_loop_raises_iff)
    with ok show False by simp
  qed
next
  assume "\<forall>(mode, translation) \<in> set ts. BASE_LOCALE \<in> dom translation"
  then show "fst (register_loop handler ts w) = Inr ()"
    by (rule register_loop_returns)
qed

text \<open>
  After a pass over pairs that all have the base locale, each mode of the table holds the
  resolver of its own translation (the keys of a dictionary are distinct).
\<close>

lemma register_loop_installed:
  "\<forall>(mode, translation) \<in> set ts. BASE_LOCALE \<in> dom translation \<Longrightarrow>
   distinct (map fst ts) \<Longrightarrow> (mode, translation) \<in> set ts \<Longrightarrow>
   ERROR_TEMPLATES (snd (register_loop handler ts w)) handler mode =
     Some (Resolver translation)"
proof (induction ts arbitrary: w)
  case Nil
  then show ?case by simp
next
  case (Cons p rest)
  obtain m t where p: "p = (m, t)" by (cases p)
  show ?case
  proof (cases "(mode, translation) \<in> set rest")
    case True
    with Cons p show ?thesis by auto
  next
    case False
    with Cons.prems p have eq: "m = mode" "t = translation" by auto
    from Cons.prems p eq have "mode \<notin> fst ` set rest" by auto
    then have "ERROR_TEMPLATES (snd (register_loop handler rest (install handler mode translation w))) handler mode
      = ERROR_TEMPLATES (install handler mode translation w) handler mode"
      by (rule register_loop_other_mode)
    with Cons.prems p eq show ?thesis by (auto simp: install_def ERROR_TEMPLATES_def)
  qed
qed

lemma register_handler_parts:
  "fst (register_handler handler ts w) = fst (register_loop handler ts w)"
  "fst (snd (register_handler handler ts w)) = ts"
  "snd (snd (register_handler handler ts w)) = snd (register_loop handler ts w)"
  by (simp_all add: register_handler_def split_def)

section \<open>The message of the configuration error\<close>

lemma mentions_class_name: "sublist (class_name handler) (missing_message handler mode)"
  unfolding missing_message_def by (rule sublist_appendI)

lemma sublist_later: "sublist xs ys \<Longrightarrow> sublist xs (ps @ ys)"
  by (metis sublist_append)

lemma mentions_base_locale: "sublist BASE_LOCALE (missing_message handler mode)"
  unfolding missing_message_def
  by (intro sublist_later sublist_append_rightI)

lemma mentions_mode_value: "sublist (mode_value mode) (missing_message handler mode)"
  unfolding missing_message_def
  by (intro sublist_later sublist_append_rightI)

section \<open>The resolver and the locale context\<close>

lemma get_locale_times_eq:
  "get_locale_times n w = (replicate n (fst (get_locale w)), w)"
  by (induction n) (simp_all add: get_locale_def)

lemma process_translation_present:
  "fst (get_locale flow) = Inr locale \<Longrightarrow> translation BASE_LOCALE = Some base_template \<Longrightarrow>
   translation locale = Some template \<Longrightarrow>
   process_translation flow self translation = (Inr (template self), flow)"
  by (simp add: process_translation_def get_locale_def split: sum.splits)

lemma process_translation_absent:
  "fst (get_locale flow) = Inr locale \<Longrightarrow> translation BASE_LOCALE = Some base_template \<Longrightarrow>
   translation locale = None \<Longrightarrow>
   process_translation flow self translation = (Inr (base_template self), flow)"
  by (simp add: process_translation_def get_locale_def split: sum.splits)

section \<open>Registration: failure\<close>

text \<open>
  The registrar is not all-or-nothing. With a table whose first mode has the base locale
  and whose second mode does not, it raises, and the slot of the first mode has already
  been overwritten.
\<close>

theorem register_handler_all_or_nothing_counterexample:
  "''en'' \<in> dom [''en'' \<mapsto> tmpl_en] \<and> ''en'' \<notin> dom (Map.empty :: (string, string) Translation) \<and>
   fst (register_handler RequiredHandler [(ROOT, [''en'' \<mapsto> tmpl_en]), (ITEM, Map.empty)]
          fresh_world) =
     Inl (PipelinePluginI18nException (missing_message RequiredHandler ITEM)) \<and>
   ERROR_TEMPLATES (snd (snd (register_handler RequiredHandler
       [(ROOT, [''en'' \<mapsto> tmpl_en]), (ITEM, Map.empty)] fresh_world))) RequiredHandler ROOT \<noteq>
     ERROR_TEMPLATES fresh_world RequiredHandler ROOT"
  by (simp add: register_handler_def install_def ERROR_TEMPLATES_def BASE_LOCALE_def example_defs)

text \<open>
  Claim C1, as the code has it. Let the table be \<open>before @ (bad_mode, bad) # after\<close>,
  where \<open>(bad_mode, bad)\<close> is the first pair, in iteration order, whose translation lacks
  the base locale \<open>''en''\<close> (lemma \<open>first_missing\<close>: every table with such a pair splits
  so). Then \<open>register_handler\<close> raises the configuration error for \<open>bad_mode\<close>; the slot of
  every mode that is not a key of \<open>before\<close> (the offending mode, the modes after it, the
  modes outside the table) is what it was; and every mode of \<open>before\<close> holds the resolver
  of its translation: checking and installing alternate pair by pair.
\<close>

theorem register_handler_raise_keeps_later_modes:
  assumes "\<forall>(mode, translation) \<in> set before. ''en'' \<in> dom translation"
    and "''en'' \<notin> dom bad"
    and "distinct (map fst (before @ (bad_mode, bad) # after))"
  shows "fst (register_handler handler (before @ (bad_mode, bad) # after) w) =
           Inl (PipelinePluginI18nException (missing_message handler bad_mode)) \<and>
         (\<forall>mode. mode \<notin> fst ` set before \<longrightarrow>
            ERROR_TEMPLATES (snd (snd (register_handler handler
                (before @ (bad_mode, bad) # after) w))) handler mode =
              ERROR_TEMPLATES w handler mode) \<and>
         (\<forall>(mode, translation) \<in> set before.
            ERROR_TEMPLATES (snd (snd (register_handler handler
                (before @ (bad_mode, bad) # after) w))) handler mode =
              Some (Resolver translation))"
proof -
  from assms(1) have good: "\<forall>(mode, translation) \<in> set before. BASE_LOCALE \<in> dom translation"
    by (simp only: BASE_LOCALE_def)
  from assms(2) have bad: "BASE_LOCALE \<notin> dom bad"
    by (simp add: BASE_LOCALE_def)
  from assms(3) have dist: "distinct (map fst before)"
    by simp
  note loop = register_loop_raises [OF good bad, of handler bad_mode after w]
  have "fst (register_handler handler (before @ (bad_mode, bad) # after) w) =
      Inl (PipelinePluginI18nException (missing_message handler bad_mode))"
    by (simp add: register_handler_parts loop)
  moreover have "\<forall>mode. mode \<notin> fst ` set before \<longrightarrow>
      ERROR_TEMPLATES (snd (snd (register_handler handler
          (before @ (bad_mode, bad) # after) w))) handler mode =
        ERROR_TEMPLATES w handler mode"
    by (simp add: register_handler_parts loop register_loop_other_mode)
  moreover have "\<forall>(mode, translation) \<in> set before.
      ERROR_TEMPLATES (snd (snd (register_handler handler
          (before @ (bad_mode, bad) # after) w))) handler mode =
        Some (Resolver translation)"
  proof (clarify)
    fix mode translation
    assume "(mode, translation) \<in> set before"
    from register_loop_installed [OF good dist this, of handler w]
    show "ERROR_TEMPLATES (snd (snd (register_handler handler
          (before @ (bad_mode, bad) # after) w))) handler mode =
        Some (Resolver translation)"
      by (simp add: register_handler_parts loop)
  qed
  ultimately show ?thesis by blast
qed

theorem register_handler_raise_keeps_later_modes_witness:
  "fst (register_handler RequiredHandler [(ROOT, [''en'' \<mapsto> tmpl_en]), (ITEM, Map.empty)]
          fresh_world) =
     Inl (PipelinePluginI18nException (missing_message RequiredHandler ITEM)) \<and>
   ERROR_TEMPLATES (snd (snd (register_handler RequiredHandler
       [(ROOT, [''en'' \<mapsto> tmpl_en]), (ITEM, Map.empty)] fresh_world))) RequiredHandler ITEM =
     ERROR_TEMPLATES fresh_world RequiredHandler ITEM \<and>
   ERROR_TEMPLATES (snd (snd (register_handler RequiredHandler
       [(ROOT, [''en'' \<mapsto> tmpl_en]), (ITEM, Map.empty)] fresh_world))) RequiredHandler ROOT =
     Some (Resolver [''en'' \<mapsto> tmpl_en])"
proof -
  have good: "\<forall>(mode, translation) \<in> set [(ROOT, [''en'' \<mapsto> tmpl_en])]. ''en'' \<in> dom translation"
    by simp
  have bad: "''en'' \<notin> dom (Map.empty :: (string, string) Translation)"
    by simp
  have dist: "distinct (map fst ([(ROOT, [''en'' \<mapsto> tmpl_en])] @
      (ITEM, (Map.empty :: (string, string) Translation)) # []))"
    by (simp add: ROOT_def ITEM_def)
  have item: "ITEM \<notin> fst ` set [(ROOT, [''en'' \<mapsto> tmpl_en])]"
    by (simp add: ROOT_def ITEM_def)
  have root: "(ROOT, [''en'' \<mapsto> tmpl_en]) \<in> set [(ROOT, [''en'' \<mapsto> tmpl_en])]"
    by simp
  from register_handler_raise_keeps_later_modes [OF good bad dist, of RequiredHandler fresh_world]
    item root
  show ?thesis by fastforce
qed

text \<open>
  Claim C2. \<open>register_handler\<close> raises if and only if the translation of some mode has no
  entry for \<open>''en''\<close>; what it raises is then the configuration error for such a mode, and
  its message contains the name of the handler class and the value of that mode; when
  every translation has the entry for \<open>''en''\<close>, it returns without raising.
\<close>

theorem register_handler_raises_iff:
  "((\<exists>e. fst (register_handler handler ts w) = Inl e) \<longleftrightarrow>
      (\<exists>(mode, translation) \<in> set ts. ''en'' \<notin> dom translation)) \<and>
   (\<forall>e. fst (register_handler handler ts w) = Inl e \<longrightarrow>
      (\<exists>(mode, translation) \<in> set ts. ''en'' \<notin> dom translation \<and>
         e = PipelinePluginI18nException (missing_message handler mode) \<and>
         sublist (class_name handler) (missing_message handler mode) \<and>
         sublist (mode_value mode) (missing_message handler mode))) \<and>
   ((\<forall>(mode, translation) \<in> set ts. ''en'' \<in> dom translation) \<longrightarrow>
      fst (register_handler handler ts w) = Inr ())"
proof (intro conjI allI impI)
  show "(\<exists>e. fst (register_handler handler ts w) = Inl e) \<longleftrightarrow>
      (\<exists>(mode, translation) \<in> set ts. ''en'' \<notin> dom translation)"
    using register_loop_raises_iff [of handler ts w]
    by (simp only: register_handler_parts BASE_LOCALE_def)
next
  fix e
  assume raised: "fst (register_handler handler ts w) = Inl e"
  then have "\<exists>e. fst (register_loop handler ts w) = Inl e"
    by (simp add: register_handler_parts)
  then have "\<exists>(mode, translation) \<in> set ts. BASE_LOCALE \<notin> dom translation"
    by (simp only: register_loop_raises_iff)
  from first_missing [OF this]
  obtain before mode bad after where split: "ts = before @ (mode, bad) # after"
    and bad: "BASE_LOCALE \<notin> dom bad"
    and good: "\<forall>(m, t) \<in> set before. BASE_LOCALE \<in> dom t"
    by blast
  have "fst (register_loop handler ts w) =
      Inl (PipelinePluginI18nException (missing_message handler mode))"
    unfolding split register_loop_raises [OF good bad] by simp
  with raised have e: "e = PipelinePluginI18nException (missing_message handler mode)"
    by (simp add: register_handler_parts)
  have "(mode, bad) \<in> set ts" by (simp add: split)
  moreover have "''en'' \<notin> dom bad" using bad by (simp add: BASE_LOCALE_def)
  ultimately show "\<exists>(mode, translation) \<in> set ts. ''en'' \<notin> dom translation \<and>
         e = PipelinePluginI18nException (missing_message handler mode) \<and>
         sublist (class_name handler) (missing_message handler mode) \<and>
         sublist (mode_value mode) (missing_message handler mode)"
    using e mentions_class_name [of handler mode] mentions_mode_value [of mode handler]
    by (intro bexI [of _ "(mode, bad)"]) simp_all
next
  assume "\<forall>(mode, translation) \<in> set ts. ''en'' \<in> dom translation"
  then have "\<forall>(mode, translation) \<in> set ts. BASE_LOCALE \<in> dom translation"
    by (simp only: BASE_LOCALE_def)
  then show "fst (register_handler handler ts w) = Inr ()"
    by (simp only: register_handler_parts register_loop_returns)
qed

theorem register_handler_raises_iff_witness:
  "(\<exists>e. fst (register_handler RequiredHandler
        [(ROOT, [''en'' \<mapsto> tmpl_en]), (ITEM, [''pl'' \<mapsto> tmpl_pl])] fresh_world) = Inl e) \<and>
   fst (register_handler RequiredHandler
        [(ROOT, [''en'' \<mapsto> tmpl_en]), (ITEM, [''en'' \<mapsto> tmpl_en, ''pl'' \<mapsto> tmpl_pl])]
        fresh_world) = Inr ()"
proof -
  have bad: "\<exists>(mode, translation) \<in> set [(ROOT, [''en'' \<mapsto> tmpl_en]), (ITEM, [''pl'' \<mapsto> tmpl_pl])].
      ''en'' \<notin> dom translation"
    by simp
  have good: "\<forall>(mode, translation) \<in>
      set [(ROOT, [''en'' \<mapsto> tmpl_en]), (ITEM, [''en'' \<mapsto> tmpl_en, ''pl'' \<mapsto> tmpl_pl])].
      ''en'' \<in> dom translation"
    by simp
  from bad good
    register_handler_raises_iff [of RequiredHandler
      "[(ROOT, [''en'' \<mapsto> tmpl_en]), (ITEM, [''pl'' \<mapsto> tmpl_pl])]" fresh_world]
    register_handler_raises_iff [of RequiredHandler
      "[(ROOT, [''en'' \<mapsto> tmpl_en]), (ITEM, [''en'' \<mapsto> tmpl_en, ''pl'' \<mapsto> tmpl_pl])]"
      fresh_world]
  show ?thesis by blast
qed

text \<open>
  A table with the single mode \<open>MISSING\<close> whose translation has the entry for \<open>''en''\<close>
  and none for \<open>''pl''\<close> is accepted: nothing is raised.
\<close>

theorem register_handler_en_only_counterexample:
  "fst (register_handler RequiredHandler [(MISSING, [''en'' \<mapsto> tmpl_en])] fresh_world) = Inr () \<and>
   fst (register_handler RequiredHandler [(MISSING, [''en'' \<mapsto> tmpl_en])] fresh_world) \<noteq>
     Inl (PipelinePluginI18nException (missing_message RequiredHandler MISSING))"
  by (simp add: register_handler_def install_def BASE_LOCALE_def)

text \<open>
  Claim C3, as the code has it. Registering a single mode whose translation has only the
  entry for \<open>''en''\<close> returns normally and installs the resolver of that translation at the
  mode. Only the base locale is required: a single mode whose translation has only the
  entry for \<open>''pl''\<close> raises the configuration error, whose message mentions the value of
  the mode and \<open>''en''\<close>.
\<close>

theorem register_handler_en_only:
  "fst (register_handler handler [(mode, [''en'' \<mapsto> t_en])] w) = Inr () \<and>
   ERROR_TEMPLATES (snd (snd (register_handler handler [(mode, [''en'' \<mapsto> t_en])] w)))
       handler mode = Some (Resolver [''en'' \<mapsto> t_en]) \<and>
   fst (register_handler handler [(mode, [''pl'' \<mapsto> t_pl])] w) =
     Inl (PipelinePluginI18nException (missing_message handler mode)) \<and>
   sublist (mode_value mode) (missing_message handler mode) \<and>
   sublist ''en'' (missing_message handler mode)"
  using mentions_mode_value [of mode handler] mentions_base_locale [of handler mode]
  by (simp add: register_handler_parts install_def ERROR_TEMPLATES_def BASE_LOCALE_def)

theorem register_handler_en_only_witness:
  \<open>fst (register_handler RequiredHandler [(MISSING, [''en'' \<mapsto> tmpl_en])] fresh_world) = Inr () \<and>
   fst (register_handler RequiredHandler [(MISSING, [''pl'' \<mapsto> tmpl_pl])] fresh_world) =
     Inl (PipelinePluginI18nException
       ''Handler "RequiredHandler" is missing the "en" base locale translation for "missing" mode.'')\<close>
  using register_handler_en_only [of RequiredHandler MISSING tmpl_en fresh_world tmpl_pl]
  by (simp add: missing_message_def BASE_LOCALE_def RequiredHandler_def MISSING_def)

section \<open>The installed resolver\<close>

text \<open>
  Claim C4. After a successful registration, for every mode of the table, every handler
  instance \<open>self\<close> and every state \<open>flow\<close> of the calling flow whose current locale is not a
  key of the translation of that mode, calling the installed slot returns what the
  template of \<open>''en''\<close> in that translation returns on \<open>self\<close>, and changes nothing.
\<close>

theorem resolver_falls_back_to_base_locale:
  assumes "fst (register_handler handler ts w) = Inr ()"
    and "distinct (map fst ts)"
    and "(mode, translation) \<in> set ts"
    and "fst (get_locale flow) = Inr locale"
    and "locale \<notin> dom translation"
  shows "\<exists>slot base_template.
           ERROR_TEMPLATES (snd (snd (register_handler handler ts w))) handler mode = Some slot \<and>
           translation ''en'' = Some base_template \<and>
           call_slot slot self flow = (Inr (base_template self), flow)"
proof -
  from assms(1) have good: "\<forall>(mode, translation) \<in> set ts. BASE_LOCALE \<in> dom translation"
    by (simp only: register_handler_parts register_loop_returns_iff)
  with assms(3) obtain base_template where base: "translation BASE_LOCALE = Some base_template"
    by fastforce
  from register_loop_installed [OF good assms(2,3), of handler w]
  have slot: "ERROR_TEMPLATES (snd (snd (register_handler handler ts w))) handler mode =
      Some (Resolver translation)"
    by (simp add: register_handler_parts)
  from assms(5) have "translation locale = None" by (simp add: domIff)
  from process_translation_absent [OF assms(4) base this]
  have "call_slot (Resolver translation) self flow = (Inr (base_template self), flow)"
    by simp
  with slot base show ?thesis by (simp add: BASE_LOCALE_def)
qed

theorem resolver_falls_back_to_base_locale_witness:
  "\<exists>slot.
     ERROR_TEMPLATES (snd (snd (register_handler RequiredHandler
         [(MISSING, [''en'' \<mapsto> tmpl_en, ''pl'' \<mapsto> tmpl_pl])] fresh_world)))
       RequiredHandler MISSING = Some slot \<and>
     call_slot slot ''age'' (fresh_world\<lparr>CURRENT_LOCALE := Some ''fr''\<rparr>) =
       (Inr ''age is required'', fresh_world\<lparr>CURRENT_LOCALE := Some ''fr''\<rparr>)"
proof -
  have ok: "fst (register_handler RequiredHandler
      [(MISSING, [''en'' \<mapsto> tmpl_en, ''pl'' \<mapsto> tmpl_pl])] fresh_world) = Inr ()"
    by (simp add: register_handler_def BASE_LOCALE_def)
  have dist: "distinct (map fst [(MISSING, [''en'' \<mapsto> tmpl_en, ''pl'' \<mapsto> tmpl_pl])])"
    by simp
  have entry: "(MISSING, [''en'' \<mapsto> tmpl_en, ''pl'' \<mapsto> tmpl_pl]) \<in>
      set [(MISSING, [''en'' \<mapsto> tmpl_en, ''pl'' \<mapsto> tmpl_pl])]"
    by simp
  have current: "fst (get_locale (fresh_world\<lparr>CURRENT_LOCALE := Some ''fr''\<rparr>)) = Inr ''fr''"
    by (simp add: get_locale_def ContextVar_get_def)
  have absent: "''fr'' \<notin> dom [''en'' \<mapsto> tmpl_en, ''pl'' \<mapsto> tmpl_pl]"
    by simp
  from resolver_falls_back_to_base_locale [OF ok dist entry current absent, of "''age''"]
  show ?thesis by (auto simp: tmpl_en_def)
qed

text \<open>
  Claim C5. After a successful registration, when the translation of a mode has an entry
  for the current locale, calling the installed slot with a handler instance \<open>self\<close>
  returns exactly what the template of the current locale returns on \<open>self\<close>. In the
  witness the table is \<open>{MISSING: {"en": tmpl_en, "pl": tmpl_pl}}\<close> and the locale is
  \<open>''pl''\<close>: the result is that of \<open>tmpl_pl\<close>.
\<close>

theorem resolver_uses_current_locale:
  assumes "fst (register_handler handler ts w) = Inr ()"
    and "distinct (map fst ts)"
    and "(mode, translation) \<in> set ts"
    and "fst (get_locale flow) = Inr locale"
    and "translation locale = Some template"
  shows "\<exists>slot.
           ERROR_TEMPLATES (snd (snd (register_handler handler ts w))) handler mode = Some slot \<and>
           call_slot slot self flow = (Inr (template self), flow)"
proof -
  from assms(1) have good: "\<forall>(mode, translation) \<in> set ts. BASE_LOCALE \<in> dom translation"
    by (simp only: register_handler_parts register_loop_returns_iff)
  with assms(3) obtain base_template where base: "translation BASE_LOCALE = Some base_template"
    by fastforce
  from register_loop_installed [OF good assms(2,3), of handler w]
  have slot: "ERROR_TEMPLATES (snd (snd (register_handler handler ts w))) handler mode =
      Some (Resolver translation)"
    by (simp add: register_handler_parts)
  from process_translation_present [OF assms(4) base assms(5)]
  have "call_slot (Resolver translation) self flow = (Inr (template self), flow)"
    by simp
  with slot show ?thesis by simp
qed

theorem resolver_uses_current_locale_witness:
  "\<exists>slot.
     ERROR_TEMPLATES (snd (snd (register_handler RequiredHandler
         [(MISSING, [''en'' \<mapsto> tmpl_en, ''pl'' \<mapsto> tmpl_pl])] fresh_world)))
       RequiredHandler MISSING = Some slot \<and>
     call_slot slot ''age'' (fresh_world\<lparr>CURRENT_LOCALE := Some ''pl''\<rparr>) =
       (Inr ''age jest wymagane'', fresh_world\<lparr>CURRENT_LOCALE := Some ''pl''\<rparr>)"
proof -
  have ok: "fst (register_handler RequiredHandler
      [(MISSING, [''en'' \<mapsto> tmpl_en, ''pl'' \<mapsto> tmpl_pl])] fresh_world) = Inr ()"
    by (simp add: register_handler_def BASE_LOCALE_def)
  have dist: "distinct (map fst [(MISSING, [''en'' \<mapsto> tmpl_en, ''pl'' \<mapsto> tmpl_pl])])"
    by simp
  have entry: "(MISSING, [''en'' \<mapsto> tmpl_en, ''pl'' \<mapsto> tmpl_pl]) \<in>
      set [(MISSING, [''en'' \<mapsto> tmpl_en, ''pl'' \<mapsto> tmpl_pl])]"
    by simp
  have current: "fst (get_locale (fresh_world\<lparr>CURRENT_LOCALE := Some ''pl''\<rparr>)) = Inr ''pl''"
    by (simp add: get_locale_def ContextVar_get_def)
  have present: "[''en'' \<mapsto> tmpl_en, ''pl'' \<mapsto> tmpl_pl] ''pl'' = Some tmpl_pl"
    by simp
  from resolver_uses_current_locale [OF ok dist entry current present, of "''age''"]
  show ?thesis by (simp add: tmpl_pl_def)
qed

section \<open>The locale context\<close>

text \<open>
  Claim C6. In a flow whose context never had the locale set, \<open>get_locale\<close> returns the
  base locale \<open>''en''\<close>; in every state of the context it returns a locale (it never
  raises) and leaves the state as it is.
\<close>

theorem get_locale_default:
  "(CURRENT_LOCALE w = None \<longrightarrow> fst (get_locale w) = Inr ''en'') \<and>
   (\<exists>locale. fst (get_locale w) = Inr locale) \<and> snd (get_locale w) = w"
  by (simp add: get_locale_def ContextVar_get_def BASE_LOCALE_def split: option.splits)

theorem get_locale_default_witness:
  "CURRENT_LOCALE fresh_world = None \<and> fst (get_locale fresh_world) = Inr ''en''"
  using get_locale_default [of fresh_world] by (simp add: fresh_world_def)

text \<open>
  Claim C7. For every locale \<open>locale\<close>, \<open>set_locale locale\<close> returns \<open>None\<close> without
  raising, and each of any number of \<open>get_locale\<close> calls that follow in the same flow
  returns \<open>locale\<close>.
\<close>

theorem set_locale_then_get_locale:
  "fst (set_locale locale w) = Inr () \<and>
   fst (get_locale_times n (snd (set_locale locale w))) = replicate n (Inr locale)"
  by (simp add: get_locale_times_eq set_locale_def get_locale_def ContextVar_get_def
      ContextVar_set_def)

theorem set_locale_then_get_locale_witness:
  "fst (set_locale ''pl'' fresh_world) = Inr () \<and>
   fst (get_locale_times 3 (snd (set_locale ''pl'' fresh_world))) =
     [Inr ''pl'', Inr ''pl'', Inr ''pl'']"
proof -
  have three: "replicate 3 (Inr ''pl'' :: exn + Locale) = [Inr ''pl'', Inr ''pl'', Inr ''pl'']"
    by (simp add: numeral_3_eq_3)
  from set_locale_then_get_locale [of "''pl''" fresh_world 3]
  show ?thesis unfolding three .
qed

section \<open>Registration: what it leaves alone\<close>

text \<open>
  The tables of other handler classes are not always left alone. In \<open>inheriting_world\<close>
  the class \<open>OptionalHandler\<close> is bound to the dictionary of \<open>RequiredHandler\<close>;
  registering \<open>OptionalHandler\<close> writes into that dictionary, so the table of
  \<open>RequiredHandler\<close>, which was not passed in, has changed at \<open>ROOT\<close>.
\<close>

theorem register_handler_frame_counterexample:
  "RequiredHandler \<noteq> OptionalHandler \<and>
   fst (register_handler OptionalHandler [(ROOT, [''en'' \<mapsto> tmpl_en])] inheriting_world) =
     Inr () \<and>
   ERROR_TEMPLATES inheriting_world RequiredHandler ROOT = None \<and>
   ERROR_TEMPLATES (snd (snd (register_handler OptionalHandler
       [(ROOT, [''en'' \<mapsto> tmpl_en])] inheriting_world))) RequiredHandler ROOT =
     Some (Resolver [''en'' \<mapsto> tmpl_en]) \<and>
   ERROR_TEMPLATES (snd (snd (register_handler OptionalHandler
       [(ROOT, [''en'' \<mapsto> tmpl_en])] inheriting_world))) RequiredHandler \<noteq>
     ERROR_TEMPLATES inheriting_world RequiredHandler"
proof -
  have differ: "RequiredHandler \<noteq> OptionalHandler"
    by (simp add: RequiredHandler_def OptionalHandler_def)
  have ok: "fst (register_handler OptionalHandler [(ROOT, [''en'' \<mapsto> tmpl_en])]
      inheriting_world) = Inr ()"
    by (simp add: register_handler_def BASE_LOCALE_def)
  have before: "ERROR_TEMPLATES inheriting_world RequiredHandler ROOT = None"
    by (simp add: ERROR_TEMPLATES_def inheriting_world_def)
  have after: "ERROR_TEMPLATES (snd (snd (register_handler OptionalHandler
      [(ROOT, [''en'' \<mapsto> tmpl_en])] inheriting_world))) RequiredHandler ROOT =
      Some (Resolver [''en'' \<mapsto> tmpl_en])"
    by (simp add: register_handler_def install_def ERROR_TEMPLATES_def BASE_LOCALE_def
        inheriting_world_def RequiredHandler_def OptionalHandler_def)
  from before after have "ERROR_TEMPLATES (snd (snd (register_handler OptionalHandler
      [(ROOT, [''en'' \<mapsto> tmpl_en])] inheriting_world))) RequiredHandler \<noteq>
      ERROR_TEMPLATES inheriting_world RequiredHandler"
    by (metis option.distinct(1))
  with differ ok before after show ?thesis by simp
qed

text \<open>
  Claim C9, as the code has it. Every call of \<open>register_handler\<close>, raising or not, leaves
  the current locale as it is, leaves the dictionary \<open>translations\<close> as it is, rebinds no
  class, and leaves every dictionary object other than the one that
  \<open>handler.ERROR_TEMPLATES\<close> is bound to as it is: so the table of every handler class bound
  to a different dictionary object than the class passed in is unmodified. A class bound
  to the same object (a subclass that inherits the attribute, or its parent) has, after
  the call, the table of the class passed in.
\<close>

theorem register_handler_frame:
  "CURRENT_LOCALE (snd (snd (register_handler handler ts w))) = CURRENT_LOCALE w \<and>
   fst (snd (register_handler handler ts w)) = ts \<and>
   ERROR_TEMPLATES_ref (snd (snd (register_handler handler ts w))) = ERROR_TEMPLATES_ref w \<and>
   (\<forall>a. a \<noteq> ERROR_TEMPLATES_ref w handler \<longrightarrow>
      dicts (snd (snd (register_handler handler ts w))) a = dicts w a) \<and>
   (\<forall>other. ERROR_TEMPLATES_ref w other \<noteq> ERROR_TEMPLATES_ref w handler \<longrightarrow>
      ERROR_TEMPLATES (snd (snd (register_handler handler ts w))) other =
        ERROR_TEMPLATES w other) \<and>
   (\<forall>other. ERROR_TEMPLATES_ref w other = ERROR_TEMPLATES_ref w handler \<longrightarrow>
      ERROR_TEMPLATES (snd (snd (register_handler handler ts w))) other =
        ERROR_TEMPLATES (snd (snd (register_handler handler ts w))) handler)"
proof (intro conjI allI impI)
  show "CURRENT_LOCALE (snd (snd (register_handler handler ts w))) = CURRENT_LOCALE w"
    by (simp only: register_handler_parts register_loop_CURRENT_LOCALE)
  show "fst (snd (register_handler handler ts w)) = ts"
    by (simp only: register_handler_parts)
  show "ERROR_TEMPLATES_ref (snd (snd (register_handler handler ts w))) = ERROR_TEMPLATES_ref w"
    by (simp only: register_handler_parts register_loop_ERROR_TEMPLATES_ref)
next
  fix a
  assume "a \<noteq> ERROR_TEMPLATES_ref w handler"
  then show "dicts (snd (snd (register_handler handler ts w))) a = dicts w a"
    unfolding register_handler_parts by (rule register_loop_other_dict)
next
  fix other
  assume "ERROR_TEMPLATES_ref w other \<noteq> ERROR_TEMPLATES_ref w handler"
  then show "ERROR_TEMPLATES (snd (snd (register_handler handler ts w))) other =
      ERROR_TEMPLATES w other"
    unfolding register_handler_parts by (rule register_loop_other_class)
next
  fix other
  assume "ERROR_TEMPLATES_ref w other = ERROR_TEMPLATES_ref w handler"
  then show "ERROR_TEMPLATES (snd (snd (register_handler handler ts w))) other =
      ERROR_TEMPLATES (snd (snd (register_handler handler ts w))) handler"
    unfolding register_handler_parts by (rule register_loop_same_dict)
qed

theorem register_handler_frame_witness:
  "CURRENT_LOCALE (snd (snd (register_handler OptionalHandler
       [(ROOT, [''en'' \<mapsto> tmpl_en]), (ITEM, Map.empty)] inheriting_world))) =
     CURRENT_LOCALE inheriting_world \<and>
   fst (snd (register_handler OptionalHandler
       [(ROOT, [''en'' \<mapsto> tmpl_en]), (ITEM, Map.empty)] inheriting_world)) =
     [(ROOT, [''en'' \<mapsto> tmpl_en]), (ITEM, Map.empty)] \<and>
   ERROR_TEMPLATES_ref inheriting_world LengthHandler \<noteq>
     ERROR_TEMPLATES_ref inheriting_world OptionalHandler \<and>
   ERROR_TEMPLATES (snd (snd (register_handler OptionalHandler
       [(ROOT, [''en'' \<mapsto> tmpl_en]), (ITEM, Map.empty)] inheriting_world))) LengthHandler =
     ERROR_TEMPLATES inheriting_world LengthHandler \<and>
   ERROR_TEMPLATES_ref inheriting_world RequiredHandler =
     ERROR_TEMPLATES_ref inheriting_world OptionalHandler \<and>
   ERROR_TEMPLATES (snd (snd (register_handler OptionalHandler
       [(ROOT, [''en'' \<mapsto> tmpl_en]), (ITEM, Map.empty)] inheriting_world))) RequiredHandler =
     ERROR_TEMPLATES (snd (snd (register_handler OptionalHandler
       [(ROOT, [''en'' \<mapsto> tmpl_en]), (ITEM, Map.empty)] inheriting_world))) OptionalHandler"
proof -
  have apart: "ERROR_TEMPLATES_ref inheriting_world LengthHandler \<noteq>
      ERROR_TEMPLATES_ref inheriting_world OptionalHandler"
    by (simp add: inheriting_world_def LengthHandler_def OptionalHandler_def)
  have shared: "ERROR_TEMPLATES_ref inheriting_world RequiredHandler =
      ERROR_TEMPLATES_ref inheriting_world OptionalHandler"
    by (simp add: inheriting_world_def RequiredHandler_def OptionalHandler_def)
  from apart shared register_handler_frame [of OptionalHandler
      "[(ROOT, [''en'' \<mapsto> tmpl_en]), (ITEM, Map.empty)]" inheriting_world]
  show ?thesis by blast
qed

text \<open>
  Claim C10. With an empty table \<open>register_handler\<close> returns normally and changes
  nothing; and after any successful registration the slots of the handler class at the
  modes that are not keys of the table hold what they held before.
\<close>

theorem register_handler_keeps_other_modes:
  "fst (register_handler handler [] w) = Inr () \<and>
   snd (snd (register_handler handler [] w)) = w \<and>
   (fst (register_handler handler ts w) = Inr () \<longrightarrow>
      (\<forall>mode. mode \<notin> fst ` set ts \<longrightarrow>
         ERROR_TEMPLATES (snd (snd (register_handler handler ts w))) handler mode =
           ERROR_TEMPLATES w handler mode))"
  by (simp add: register_handler_parts register_loop_other_mode)

theorem register_handler_keeps_other_modes_witness:
  "fst (register_handler RequiredHandler [(ROOT, [''en'' \<mapsto> tmpl_en])] fresh_world) = Inr () \<and>
   ITEM \<notin> fst ` set [(ROOT, [''en'' \<mapsto> tmpl_en])] \<and>
   ERROR_TEMPLATES (snd (snd (register_handler RequiredHandler
       [(ROOT, [''en'' \<mapsto> tmpl_en])] fresh_world))) RequiredHandler ITEM =
     ERROR_TEMPLATES fresh_world RequiredHandler ITEM"
proof -
  have ok: "fst (register_handler RequiredHandler [(ROOT, [''en'' \<mapsto> tmpl_en])] fresh_world) =
      Inr ()"
    by (simp add: register_handler_def BASE_LOCALE_def)
  have item: "ITEM \<notin> fst ` set [(ROOT, [''en'' \<mapsto> tmpl_en])]"
    by (simp add: ROOT_def ITEM_def)
  from ok item register_handler_keeps_other_modes [of RequiredHandler fresh_world
      "[(ROOT, [''en'' \<mapsto> tmpl_en])]"]
  show ?thesis by blast
qed

end
